theory Spec2Isabelle
  imports Main "HOL-Library.Multiset" "HOL-Library.Sublist"
begin

section \<open>The syntax trees of Python's \<open>ast\<close> module\<close>

text \<open>
  \<open>app.py\<close> analyses the tree that \<open>ast.parse\<close> returns. The tree is typed as the
  abstract grammar of the \<open>ast\<close> module types it. The classes the program tests for or
  reads fields of have a constructor of their own, with the child fields in the order of
  the class's \<open>_fields\<close>; so have the classes that hold an \<open>arguments\<close> or an
  \<open>alias\<close> object. Every other class (\<open>Assign\<close>, \<open>Return\<close>, \<open>BinOp\<close>, \<open>Load\<close>,
  \<open>ClassDef\<close>, ...) is an \<open>Other\<close> node: its class name, its child nodes in field order
  and its line number when the class has one.
\<close>

datatype const_value = StrConst string | IntConst int | OtherConst

datatype py_alias = Alias (alias_name: string) (alias_asname: "string option")

datatype node =
    Module "node list" "node list"
  | FunctionDef string arguments "node list" "node list" "node option" "node list" int
  | AsyncFunctionDef string arguments "node list" "node list" "node option" "node list" int
  | Lambda arguments node int
  | Name string node int
  | For node node "node list" "node list" int
  | While node "node list" "node list" int
  | If node "node list" "node list" int
  | Import "py_alias list" int
  | ImportFrom "string option" "py_alias list" int int
  | Expr node int
  | Constant const_value int
  | Other string "node list" "int option"
and arguments =
    Arguments "arg list" "arg list" "arg option" "arg list" "node option list" "arg option"
      "node list"
and arg =
    Arg (arg_arg: string) (arg_annotation: "node option") (arg_lineno: int)

text \<open>
  The field lists are: \<open>Module(body, type_ignores)\<close>;
  \<open>FunctionDef(name, args, body, decorator_list, returns, type_params)\<close> and its line;
  \<open>Lambda(args, body)\<close>; \<open>Name(id, ctx)\<close>; \<open>For(target, iter, body, orelse)\<close>;
  \<open>While(test, body, orelse)\<close>; \<open>If(test, body, orelse)\<close>; \<open>Import(names)\<close>;
  \<open>ImportFrom(module, names, level)\<close>; \<open>Expr(value)\<close>; \<open>Constant(value)\<close>;
  \<open>arguments(posonlyargs, args, vararg, kwonlyargs, kw_defaults, kwarg, defaults)\<close>;
  \<open>arg(arg, annotation)\<close>; \<open>alias(name, asname)\<close>.

  \<open>ast.walk\<close> and \<open>isinstance\<close> see every object of the tree as an \<open>ast.AST\<close>.
\<close>

datatype AST = Node node | ArgumentsNode arguments | ArgNode arg | AliasNode py_alias

fun optional :: "'a option \<Rightarrow> 'a list" where
  "optional None = []"
| "optional (Some x) = [x]"

text \<open>
  \<open>ast.iter_child_nodes\<close>: the fields in order; a field that is a node is yielded, a
  field that is a list yields its items that are nodes (a \<open>None\<close> in \<open>kw_defaults\<close> is
  skipped), any other field yields nothing.
\<close>

fun iter_child_nodes :: "AST \<Rightarrow> AST list" where
  "iter_child_nodes (Node (Module body type_ignores)) = map Node (body @ type_ignores)"
| "iter_child_nodes (Node (FunctionDef name args body decorator_list returns type_params l)) =
     ArgumentsNode args # map Node (body @ decorator_list @ optional returns @ type_params)"
| "iter_child_nodes (Node (AsyncFunctionDef name args body decorator_list returns type_params l)) =
     ArgumentsNode args # map Node (body @ decorator_list @ optional returns @ type_params)"
| "iter_child_nodes (Node (Lambda args body l)) = [ArgumentsNode args, Node body]"
| "iter_child_nodes (Node (Name ident ctx l)) = [Node ctx]"
| "iter_child_nodes (Node (For target iter body orelse l)) =
     map Node (target # iter # body @ orelse)"
| "iter_child_nodes (Node (While test body orelse l)) = map Node (test # body @ orelse)"
| "iter_child_nodes (Node (If test body orelse l)) = map Node (test # body @ orelse)"
| "iter_child_nodes (Node (Import names l)) = map AliasNode names"
| "iter_child_nodes (Node (ImportFrom modname names level l)) = map AliasNode names"
| "iter_child_nodes (Node (Expr v l)) = [Node v]"
| "iter_child_nodes (Node (Constant c l)) = []"
| "iter_child_nodes (Node (Other cls children l)) = map Node children"
| "iter_child_nodes (ArgumentsNode
       (Arguments posonlyargs args vararg kwonlyargs kw_defaults kwarg defaults)) =
     map ArgNode (posonlyargs @ args @ optional vararg @ kwonlyargs)
     @ map Node (concat (map optional kw_defaults))
     @ map ArgNode (optional kwarg)
     @ map Node defaults"
| "iter_child_nodes (ArgNode (Arg a annotation l)) = map Node (optional annotation)"
| "iter_child_nodes (AliasNode a) = []"

fun ast_size :: "AST \<Rightarrow> nat" where
  "ast_size (Node n) = Suc (size n)"
| "ast_size (ArgumentsNode a) = Suc (size a)"
| "ast_size (ArgNode a) = Suc (size a)"
| "ast_size (AliasNode a) = 0"

lemma size_member: "x \<in> set xs \<Longrightarrow> size x \<le> size_list size xs"
  by (induction xs) auto

lemma size_optional: "x \<in> set (optional r) \<Longrightarrow> size x \<le> size_option size r"
  by (cases r) simp_all

lemma size_kw_defaults:
  "x \<in> set (concat (map optional kds)) \<Longrightarrow> size x \<le> size_list (size_option size) kds"
proof (induction kds)
  case Nil
  then show ?case by simp
next
  case (Cons kd kds)
  from Cons.prems
  consider "x \<in> set (optional kd)" | "x \<in> set (concat (map optional kds))"
    by auto
  then show ?case
  proof cases
    case 1
    then have "size x \<le> size_option size kd"
      by (rule size_optional)
    then show ?thesis by simp
  next
    case 2
    then have "size x \<le> size_list (size_option size) kds"
      by (rule Cons.IH)
    then show ?thesis by simp
  qed
qed

lemma iter_child_nodes_smaller:
  assumes "c \<in> set (iter_child_nodes n)"
  shows "ast_size c < ast_size n"
proof (cases n)
  case (Node x)
  with assms show ?thesis
    by (cases x) (auto dest!: size_member size_optional)
next
  case (ArgumentsNode a)
  with assms show ?thesis
    by (cases a) (auto dest!: size_member size_optional size_kw_defaults
        simp del: set_concat)
next
  case (ArgNode a)
  with assms show ?thesis
    by (cases a) (auto dest!: size_optional)
next
  case (AliasNode a)
  with assms show ?thesis by simp
qed

definition queue_order :: "(AST list \<times> AST list) set" where
  "queue_order = inv_image (mult {(a, b). a < b}) (\<lambda>todo. mset (map ast_size todo))"

lemma wf_queue_order: "wf queue_order"
  unfolding queue_order_def by (intro wf_inv_image wf_mult wf_less)

lemma queue_order_step: "(todo @ iter_child_nodes n, n # todo) \<in> queue_order"
proof -
  have "(mset (map ast_size todo) + mset (map ast_size (iter_child_nodes n)),
         mset (map ast_size todo) + {#ast_size n#}) \<in> mult {(a, b). a < b}"
    by (rule one_step_implies_mult) (auto dest: iter_child_nodes_smaller)
  then show ?thesis
    by (simp add: queue_order_def)
qed

text \<open>
  \<open>ast.walk\<close>: a queue that starts with the root; the first node is taken off, its
  children are put at the end, and the node is yielded; until the queue is empty.
\<close>

function walk_queue :: "AST list \<Rightarrow> AST list" where
  "walk_queue [] = []"
| "walk_queue (n # todo) = n # walk_queue (todo @ iter_child_nodes n)"
  by pat_completeness auto
termination
  by (relation queue_order) (simp_all add: wf_queue_order queue_order_step)

definition walk :: "node \<Rightarrow> AST list" where
  "walk tree = walk_queue [Node tree]"

text \<open>
  The objects of a tree, each listed once: a node, then the objects below each of its
  children. This is what "every node of the tree" means below; \<open>ast.walk\<close> is compared
  with it.
\<close>

function subtree :: "AST \<Rightarrow> AST list" where
  "subtree n = n # concat (map subtree (iter_child_nodes n))"
  by pat_completeness auto
termination
  by (relation "measure ast_size") (auto dest: iter_child_nodes_smaller)

declare subtree.simps [simp del]

section \<open>What the program takes from the Python library\<close>

text \<open>
  The program calls four library functions that are not part of the repository. They
  are the fields of a runtime, so that every statement below holds for each of them:
  \<^item> \<open>ast_parse\<close> is \<open>ast.parse\<close>: \<open>Inr\<close> the module's tree, or \<open>Inl\<close> the text
    \<open>str(e)\<close> of the exception \<open>e\<close> that the parser raised;
  \<^item> \<open>cleandoc\<close> is \<open>inspect.cleandoc\<close>, which \<open>ast.get_docstring\<close> applies;
  \<^item> \<open>strip\<close> is \<open>str.strip\<close>;
  \<^item> \<open>randbelow\<close> is the draw of \<open>random.choice\<close>: from the state of the generator
    and \<open>n\<close>, an index and the next state.
\<close>

record 'g runtime =
  ast_parse :: "string \<Rightarrow> string + node"
  cleandoc :: "string \<Rightarrow> string"
  strip :: "string \<Rightarrow> string"
  randbelow :: "'g \<Rightarrow> nat \<Rightarrow> nat \<times> 'g"

text \<open>\<open>str\<close> of an integer, as \<open>str.format\<close> writes a line number.\<close>

definition digit_char :: "nat \<Rightarrow> char" where
  "digit_char d = ''0123456789'' ! d"

fun str_nat :: "nat \<Rightarrow> string" where
  "str_nat n = (if n < 10 then [digit_char n] else str_nat (n div 10) @ [digit_char (n mod 10)])"

declare str_nat.simps [simp del]

definition str_int :: "int \<Rightarrow> string" where
  "str_int i = (if i < 0 then CHR ''-'' # str_nat (nat (- i)) else str_nat (nat i))"

datatype exn = IndexError string

text \<open>
  \<open>random.choice(seq)\<close>: \<open>IndexError\<close> on an empty sequence, otherwise
  \<open>seq[self._randbelow(len(seq))]\<close>; indexing a list out of its range raises
  \<open>IndexError\<close> too.
\<close>

definition choice :: "'g runtime \<Rightarrow> 'g \<Rightarrow> 'a list \<Rightarrow> (exn + 'a) \<times> 'g" where
  "choice rt g seq =
     (if length seq = 0 then (Inl (IndexError ''Cannot choose from an empty sequence''), g)
      else (case randbelow rt g (length seq) of
              (i, g') \<Rightarrow>
                (if i < length seq then Inr (seq ! i)
                 else Inl (IndexError ''list index out of range''), g')))"

text \<open>
  A \<open>dict\<close> keeps its keys in the order of their first insertion; storing under a key
  that is present replaces the value where the key stands. \<open>dict.fromkeys(keys)\<close> stores
  \<open>None\<close> under each key in turn, and \<open>list(d)\<close> is the keys of \<open>d\<close> in order.
\<close>

fun dict_setitem :: "('k \<times> 'v) list \<Rightarrow> 'k \<Rightarrow> 'v \<Rightarrow> ('k \<times> 'v) list" where
  "dict_setitem [] k v = [(k, v)]"
| "dict_setitem ((k', v') # d) k v =
     (if k' = k then (k', v) # d else (k', v') # dict_setitem d k v)"

definition dict_fromkeys :: "'k list \<Rightarrow> ('k \<times> unit) list" where
  "dict_fromkeys keys = foldl (\<lambda>d k. dict_setitem d k ()) [] keys"

definition list_of_dict :: "('k \<times> 'v) list \<Rightarrow> 'k list" where
  "list_of_dict d = map fst d"

section \<open>\<open>EnhancedQuestionGenerator\<close>\<close>

subsection \<open>\<open>question_templates\<close>\<close>

text \<open>
  Each template with its \<open>format\<close> call: the text of the template with the values in
  the place of \<open>{name}\<close>, \<open>{lineno}\<close> and \<open>{doc}\<close>.
\<close>

definition apostrophe :: string where
  "apostrophe = [CHR 0x27]"

definition template_function :: "string \<Rightarrow> int \<Rightarrow> string" where
  "template_function name lineno =
     ''What does the function '' @ apostrophe @ name @ apostrophe @ '' at line ''
       @ str_int lineno @ '' do?''"

definition template_function_args :: "string \<Rightarrow> string" where
  "template_function_args name =
     ''What are the purposes of the arguments in the function '' @ apostrophe @ name
       @ apostrophe @ ''?''"

definition template_variable :: "string \<Rightarrow> int \<Rightarrow> string" where
  "template_variable name lineno =
     ''What is the role of the variable '' @ apostrophe @ name @ apostrophe @ '' at line ''
       @ str_int lineno @ ''?''"

definition template_loop :: "int \<Rightarrow> string" where
  "template_loop lineno =
     ''What is the significance of the loop starting at line '' @ str_int lineno @ ''?''"

definition template_conditional :: "int \<Rightarrow> string" where
  "template_conditional lineno =
     ''Under what conditions does the code block at line '' @ str_int lineno
       @ '' execute?''"

definition template_import :: "string \<Rightarrow> string" where
  "template_import name =
     ''Why is the module '' @ apostrophe @ name @ apostrophe
       @ '' imported, and how is it used?''"

definition template_docstring :: "string \<Rightarrow> string" where
  "template_docstring doc =
     ''What does the following docstring explain: '' @ apostrophe @ doc @ apostrophe @ ''?''"

subsection \<open>\<open>analyze_code\<close> and \<open>extract_docstrings\<close>\<close>

record function_fact =
  fn_name :: string
  fn_lineno :: int
  fn_args :: "string list"

record variable_fact =
  var_name :: string
  var_lineno :: int

record loop_fact =
  loop_lineno :: int

record conditional_fact =
  cond_lineno :: int

record import_fact =
  imp_name :: string
  imp_lineno :: int

record analysis =
  an_functions :: "function_fact list"
  an_variables :: "variable_fact list"
  an_loops :: "loop_fact list"
  an_conditionals :: "conditional_fact list"
  an_imports :: "import_fact list"
  an_docstrings :: "string list"

fun arguments_args :: "arguments \<Rightarrow> arg list" where
  "arguments_args (Arguments posonlyargs args vararg kwonlyargs kw_defaults kwarg defaults) =
     args"

text \<open>
  Each comprehension of \<open>analyze_code\<close> runs over \<open>ast.walk(tree)\<close> and keeps the nodes
  of one class. What one node adds to the list is a list of no or one entry.
\<close>

fun function_entry :: "AST \<Rightarrow> function_fact list" where
  "function_entry (Node (FunctionDef name args body decorator_list returns type_params l)) =
     [\<lparr>fn_name = name, fn_lineno = l, fn_args = map arg_arg (arguments_args args)\<rparr>]"
| "function_entry n = []"

fun variable_entry :: "AST \<Rightarrow> variable_fact list" where
  "variable_entry (Node (Name ident ctx l)) = [\<lparr>var_name = ident, var_lineno = l\<rparr>]"
| "variable_entry n = []"

fun loop_entry :: "AST \<Rightarrow> loop_fact list" where
  "loop_entry (Node (For target iter body orelse l)) = [\<lparr>loop_lineno = l\<rparr>]"
| "loop_entry (Node (While test body orelse l)) = [\<lparr>loop_lineno = l\<rparr>]"
| "loop_entry n = []"

fun conditional_entry :: "AST \<Rightarrow> conditional_fact list" where
  "conditional_entry (Node (If test body orelse l)) = [\<lparr>cond_lineno = l\<rparr>]"
| "conditional_entry n = []"

text \<open>\<open>node.names[0]\<close> raises \<open>IndexError\<close> when \<open>names\<close> is empty.\<close>

fun import_entry :: "AST \<Rightarrow> (string + import_fact) list" where
  "import_entry (Node (Import [] l)) = [Inl ''list index out of range'']"
| "import_entry (Node (Import (a # names) l)) =
     [Inr \<lparr>imp_name = alias_name a, imp_lineno = l\<rparr>]"
| "import_entry n = []"

text \<open>A comprehension stops at the first entry that raises.\<close>

fun collect :: "('e + 'a) list \<Rightarrow> 'e + 'a list" where
  "collect [] = Inr []"
| "collect (Inl e # rest) = Inl e"
| "collect (Inr x # rest) = (case collect rest of Inl e \<Rightarrow> Inl e | Inr xs \<Rightarrow> Inr (x # xs))"

text \<open>
  \<open>ast.get_docstring\<close> of a module or function with this body: the cleaned text when
  the first statement is an expression statement of a string constant, else \<open>None\<close>.
\<close>

fun get_docstring :: "'g runtime \<Rightarrow> node list \<Rightarrow> string option" where
  "get_docstring rt (Expr (Constant (StrConst text) lc) le # rest) = Some (cleandoc rt text)"
| "get_docstring rt body = None"

definition docstring_of_body :: "'g runtime \<Rightarrow> node list \<Rightarrow> string list" where
  "docstring_of_body rt body =
     (case get_docstring rt body of
        None \<Rightarrow> []
      | Some docstring \<Rightarrow> if docstring \<noteq> [] then [strip rt docstring] else [])"

fun docstring_entry :: "'g runtime \<Rightarrow> AST \<Rightarrow> string list" where
  "docstring_entry rt (Node (Module body type_ignores)) = docstring_of_body rt body"
| "docstring_entry rt (Node (FunctionDef name args body decorator_list returns type_params l)) =
     docstring_of_body rt body"
| "docstring_entry rt n = []"

definition extract_docstrings :: "'g runtime \<Rightarrow> node \<Rightarrow> string list" where
  "extract_docstrings rt tree = concat (map (docstring_entry rt) (walk tree))"

text \<open>
  \<open>analyze_code\<close> returns the dictionary of the six lists, as \<open>Inr\<close>, or the dictionary
  \<open>{"error": str(e)}\<close>, as \<open>Inl\<close> of the text, for any exception raised on the way.
\<close>

definition analyze_code :: "'g runtime \<Rightarrow> string \<Rightarrow> string + analysis" where
  "analyze_code rt code_snippet =
     (case ast_parse rt code_snippet of
        Inl e \<Rightarrow> Inl e
      | Inr tree \<Rightarrow>
          (case collect (concat (map import_entry (walk tree))) of
             Inl e \<Rightarrow> Inl e
           | Inr imps \<Rightarrow>
               Inr \<lparr>an_functions = concat (map function_entry (walk tree)),
                    an_variables = concat (map variable_entry (walk tree)),
                    an_loops = concat (map loop_entry (walk tree)),
                    an_conditionals = concat (map conditional_entry (walk tree)),
                    an_imports = imps,
                    an_docstrings = extract_docstrings rt tree\<rparr>))"

text \<open>
  Following the specification's words, for comparison with \<open>function_entry\<close>: a function
  record that carries "the ordered list of its formal positional parameter names", that
  is the positional-only parameters (those before a \<open>/\<close>) and then the
  positional-or-keyword ones.
\<close>

fun positional_parameter_names :: "arguments \<Rightarrow> string list" where
  "positional_parameter_names
     (Arguments posonlyargs args vararg kwonlyargs kw_defaults kwarg defaults) =
     map arg_arg (posonlyargs @ args)"

fun spec_function_entry :: "AST \<Rightarrow> function_fact list" where
  "spec_function_entry
     (Node (FunctionDef name args body decorator_list returns type_params l)) =
     [\<lparr>fn_name = name, fn_lineno = l, fn_args = positional_parameter_names args\<rparr>]"
| "spec_function_entry n = []"

definition spec_function_facts :: "node \<Rightarrow> function_fact list" where
  "spec_function_facts tree = concat (map spec_function_entry (walk tree))"

subsection \<open>\<open>generate_questions\<close>\<close>

definition function_questions :: "function_fact \<Rightarrow> string list" where
  "function_questions func =
     template_function (fn_name func) (fn_lineno func)
       # (if fn_args func \<noteq> [] then [template_function_args (fn_name func)] else [])"

definition questions_of :: "analysis \<Rightarrow> string list" where
  "questions_of a =
     concat (map function_questions (an_functions a))
     @ map (\<lambda>var. template_variable (var_name var) (var_lineno var)) (an_variables a)
     @ map (\<lambda>loop. template_loop (loop_lineno loop)) (an_loops a)
     @ map (\<lambda>cond. template_conditional (cond_lineno cond)) (an_conditionals a)
     @ map (\<lambda>imp. template_import (imp_name imp)) (an_imports a)
     @ map template_docstring (an_docstrings a)"

definition unique_questions :: "analysis \<Rightarrow> string list" where
  "unique_questions a = list_of_dict (dict_fromkeys (questions_of a))"

text \<open>
  \<open>generate_questions\<close> returns a list of one message when the analysis has the key
  \<open>error\<close>, and otherwise the string that \<open>random.choice\<close> returns; an exception of
  \<open>random.choice\<close> is not caught. The state of the random generator is threaded.
\<close>

datatype py_value = Str string | StrList "string list"

definition generate_questions :: "'g runtime \<Rightarrow> 'g \<Rightarrow> string \<Rightarrow> (exn + py_value) \<times> 'g" where
  "generate_questions rt g code_snippet =
     (case analyze_code rt code_snippet of
        Inl e \<Rightarrow> (Inr (StrList [''Error analyzing code: '' @ e]), g)
      | Inr a \<Rightarrow>
          (case choice rt g (unique_questions a) of
             (Inl e, g') \<Rightarrow> (Inl e, g')
           | (Inr question, g') \<Rightarrow> (Inr (Str question), g')))"



section \<open>Example snippets\<close>

text \<open>
  The trees that CPython's \<open>ast.parse\<close> returns for the snippets of the examples below,
  and the message of its \<open>SyntaxError\<close> for the snippet \<open>def\<close>.
\<close>

definition snippet_add :: string where
  "snippet_add = ''def add(a, b):\<newline>    return a + b''"

definition tree_add :: node where
  "tree_add =
     Module
       [FunctionDef ''add''
          (Arguments [] [Arg ''a'' None 1, Arg ''b'' None 1] None [] [] None [])
          [Other ''Return''
             [Other ''BinOp''
                [Name ''a'' (Other ''Load'' [] None) 2,
                 Other ''Add'' [] None,
                 Name ''b'' (Other ''Load'' [] None) 2]
                (Some 2)]
             (Some 2)]
          [] None [] 1]
       []"

definition tree_assign :: node where
  "tree_assign =
     Module
       [Other ''Assign''
          [Name ''x'' (Other ''Store'' [] None) 1, Constant (IntConst 1) 1]
          (Some 1)]
       []"

definition tree_literal :: node where
  "tree_literal = Module [Expr (Constant (IntConst 42) 1) 1] []"

definition tree_from_import :: node where
  "tree_from_import = Module [ImportFrom (Some ''m'') [Alias ''n'' None] 0 1] []"

definition tree_import_two :: node where
  "tree_import_two = Module [Import [Alias ''os'' None, Alias ''sys'' None] 1] []"

definition tree_posonly :: node where
  "tree_posonly =
     Module
       [FunctionDef ''f''
          (Arguments [Arg ''a'' None 1] [] None [] [] None [])
          [Other ''Pass'' [] (Some 2)]
          [] None [] 1]
       []"

definition tree_no_args :: node where
  "tree_no_args =
     Module
       [FunctionDef ''f''
          (Arguments [] [] None [] [] None [])
          [Other ''Pass'' [] (Some 2)]
          [] None [] 1]
       []"

definition tree_while :: node where
  "tree_while =
     Module [While (Constant (IntConst 1) 1) [Other ''Pass'' [] (Some 2)] [] 1] []"

definition tree_async :: node where
  "tree_async =
     Module
       [AsyncFunctionDef ''f''
          (Arguments [] [] None [] [] None [])
          [Other ''Pass'' [] (Some 2)]
          [] None [] 1]
       []"

text \<open>The snippet of two double quotes: an empty string literal, alone.\<close>

definition snippet_empty_docstring :: string where
  "snippet_empty_docstring = [CHR 0x22, CHR 0x22]"

definition tree_empty_docstring :: node where
  "tree_empty_docstring = Module [Expr (Constant (StrConst []) 1) 1] []"

definition example_sources :: "(string \<times> node) list" where
  "example_sources =
     [(snippet_add, tree_add),
      (''x = 1'', tree_assign),
      (''42'', tree_literal),
      (''from m import n'', tree_from_import),
      (''import os, sys'', tree_import_two),
      (''def f(a, /):\<newline>    pass'', tree_posonly),
      (''def f():\<newline>    pass'', tree_no_args),
      (''while 1:\<newline>    pass'', tree_while),
      (''async def f():\<newline>    pass'', tree_async),
      (snippet_empty_docstring, tree_empty_docstring)]"

definition example_parse :: "string \<Rightarrow> string + node" where
  "example_parse code_snippet =
     (case map_of example_sources code_snippet of
        Some tree \<Rightarrow> Inr tree
      | None \<Rightarrow> Inl ''invalid syntax (<unknown>, line 1)'')"

text \<open>
  A runtime for the examples: the generator's state is a counter, and a draw below \<open>n\<close>
  is the counter modulo \<open>n\<close>. The only docstring of the examples is the empty one, which
  \<open>inspect.cleandoc\<close> leaves as it is.
\<close>

definition example_runtime :: "nat runtime" where
  "example_runtime =
     \<lparr>ast_parse = example_parse,
      cleandoc = (\<lambda>doc. doc),
      strip = (\<lambda>doc. doc),
      randbelow = (\<lambda>g n. (g mod n, Suc g))\<rparr>"

subsection \<open>The analysis of the examples\<close>

lemma example_parse_simps:
  "example_parse snippet_add = Inr tree_add"
  "example_parse ''x = 1'' = Inr tree_assign"
  "example_parse ''42'' = Inr tree_literal"
  "example_parse ''from m import n'' = Inr tree_from_import"
  "example_parse ''import os, sys'' = Inr tree_import_two"
  "example_parse ''def f(a, /):\<newline>    pass'' = Inr tree_posonly"
  "example_parse ''def f():\<newline>    pass'' = Inr tree_no_args"
  "example_parse ''while 1:\<newline>    pass'' = Inr tree_while"
  "example_parse ''async def f():\<newline>    pass'' = Inr tree_async"
  "example_parse snippet_empty_docstring = Inr tree_empty_docstring"
  "example_parse ''def'' = Inl ''invalid syntax (<unknown>, line 1)''"
  by (simp_all add: example_parse_def example_sources_def snippet_add_def
      snippet_empty_docstring_def)

lemma example_runtime_simps:
  "ast_parse example_runtime = example_parse"
  "randbelow example_runtime g n = (g mod n, Suc g)"
  "cleandoc example_runtime doc = doc"
  by (simp_all add: example_runtime_def)

lemma walk_tree_literal:
  "walk (Module [Expr (Constant (IntConst 42) 1) 1] []) =
     [Node (Module [Expr (Constant (IntConst 42) 1) 1] []),
      Node (Expr (Constant (IntConst 42) 1) 1),
      Node (Constant (IntConst 42) 1)]"
  by (simp add: walk_def)

lemma analyze_tree_literal:
  assumes "ast_parse rt code_snippet = Inr tree_literal"
  shows "analyze_code rt code_snippet =
           Inr \<lparr>an_functions = [], an_variables = [], an_loops = [], an_conditionals = [],
                an_imports = [], an_docstrings = []\<rparr>"
  using assms
  by (simp add: analyze_code_def walk_tree_literal extract_docstrings_def docstring_of_body_def
      tree_literal_def)

lemma unique_questions_no_facts:
  "unique_questions \<lparr>an_functions = [], an_variables = [], an_loops = [], an_conditionals = [],
                an_imports = [], an_docstrings = []\<rparr> = []"
  by (simp add: unique_questions_def questions_of_def dict_fromkeys_def list_of_dict_def)

lemma walk_tree_assign:
  "walk (Module [Other ''Assign''
          [Name ''x'' (Other ''Store'' [] None) 1, Constant (IntConst 1) 1] (Some 1)] []) =
     [Node (Module [Other ''Assign''
          [Name ''x'' (Other ''Store'' [] None) 1, Constant (IntConst 1) 1] (Some 1)] []),
      Node (Other ''Assign''
          [Name ''x'' (Other ''Store'' [] None) 1, Constant (IntConst 1) 1] (Some 1)),
      Node (Name ''x'' (Other ''Store'' [] None) 1),
      Node (Constant (IntConst 1) 1),
      Node (Other ''Store'' [] None)]"
  by (simp add: walk_def)

lemma analyze_tree_assign:
  assumes "ast_parse rt code_snippet = Inr tree_assign"
  shows "analyze_code rt code_snippet =
           Inr \<lparr>an_functions = [], an_variables = [\<lparr>var_name = ''x'', var_lineno = 1\<rparr>],
                an_loops = [], an_conditionals = [], an_imports = [], an_docstrings = []\<rparr>"
  using assms
  by (simp add: analyze_code_def walk_tree_assign extract_docstrings_def docstring_of_body_def
      tree_assign_def)

lemma str_int_1: "str_int 1 = ''1''" and str_int_2: "str_int 2 = ''2''"
  by (simp_all add: str_int_def str_nat.simps digit_char_def)

lemma walk_tree_add:
  "walk (Module
       [FunctionDef ''add''
          (Arguments [] [Arg ''a'' None 1, Arg ''b'' None 1] None [] [] None [])
          [Other ''Return''
             [Other ''BinOp''
                [Name ''a'' (Other ''Load'' [] None) 2,
                 Other ''Add'' [] None,
                 Name ''b'' (Other ''Load'' [] None) 2]
                (Some 2)]
             (Some 2)]
          [] None [] 1]
       []) =
   [Node (Module
       [FunctionDef ''add''
          (Arguments [] [Arg ''a'' None 1, Arg ''b'' None 1] None [] [] None [])
          [Other ''Return''
             [Other ''BinOp''
                [Name ''a'' (Other ''Load'' [] None) 2,
                 Other ''Add'' [] None,
                 Name ''b'' (Other ''Load'' [] None) 2]
                (Some 2)]
             (Some 2)]
          [] None [] 1]
       []),
    Node (FunctionDef ''add''
          (Arguments [] [Arg ''a'' None 1, Arg ''b'' None 1] None [] [] None [])
          [Other ''Return''
             [Other ''BinOp''
                [Name ''a'' (Other ''Load'' [] None) 2,
                 Other ''Add'' [] None,
                 Name ''b'' (Other ''Load'' [] None) 2]
                (Some 2)]
             (Some 2)]
          [] None [] 1),
    ArgumentsNode (Arguments [] [Arg ''a'' None 1, Arg ''b'' None 1] None [] [] None []),
    Node (Other ''Return''
             [Other ''BinOp''
                [Name ''a'' (Other ''Load'' [] None) 2,
                 Other ''Add'' [] None,
                 Name ''b'' (Other ''Load'' [] None) 2]
                (Some 2)]
             (Some 2)),
    ArgNode (Arg ''a'' None 1),
    ArgNode (Arg ''b'' None 1),
    Node (Other ''BinOp''
                [Name ''a'' (Other ''Load'' [] None) 2,
                 Other ''Add'' [] None,
                 Name ''b'' (Other ''Load'' [] None) 2]
                (Some 2)),
    Node (Name ''a'' (Other ''Load'' [] None) 2),
    Node (Other ''Add'' [] None),
    Node (Name ''b'' (Other ''Load'' [] None) 2),
    Node (Other ''Load'' [] None),
    Node (Other ''Load'' [] None)]"
  by (simp add: walk_def)

lemma analyze_tree_add:
  assumes "ast_parse rt code_snippet = Inr tree_add"
  shows "analyze_code rt code_snippet =
           Inr \<lparr>an_functions = [\<lparr>fn_name = ''add'', fn_lineno = 1, fn_args = [''a'', ''b'']\<rparr>],
                an_variables = [\<lparr>var_name = ''a'', var_lineno = 2\<rparr>,
                                \<lparr>var_name = ''b'', var_lineno = 2\<rparr>],
                an_loops = [], an_conditionals = [], an_imports = [], an_docstrings = []\<rparr>"
  using assms
  by (simp add: analyze_code_def walk_tree_add extract_docstrings_def docstring_of_body_def
      tree_add_def)

lemma unique_questions_add:
  "unique_questions
     \<lparr>an_functions = [\<lparr>fn_name = ''add'', fn_lineno = 1, fn_args = [''a'', ''b'']\<rparr>],
      an_variables = [\<lparr>var_name = ''a'', var_lineno = 2\<rparr>, \<lparr>var_name = ''b'', var_lineno = 2\<rparr>],
      an_loops = [], an_conditionals = [], an_imports = [], an_docstrings = []\<rparr> =
     [''What does the function 'add' at line 1 do?'',
      ''What are the purposes of the arguments in the function 'add'?'',
      ''What is the role of the variable 'a' at line 2?'',
      ''What is the role of the variable 'b' at line 2?'']"
  by (simp add: unique_questions_def questions_of_def function_questions_def
      template_function_def template_function_args_def template_variable_def apostrophe_def
      str_int_1 str_int_2 dict_fromkeys_def list_of_dict_def)

lemma unique_questions_assign:
  "unique_questions
     \<lparr>an_functions = [], an_variables = [\<lparr>var_name = ''x'', var_lineno = 1\<rparr>],
      an_loops = [], an_conditionals = [], an_imports = [], an_docstrings = []\<rparr> =
     [''What is the role of the variable 'x' at line 1?'']"
  by (simp add: unique_questions_def questions_of_def template_variable_def apostrophe_def
      str_int_1 dict_fromkeys_def list_of_dict_def)

lemma walk_tree_posonly:
  "walk (Module
       [FunctionDef ''f''
          (Arguments [Arg ''a'' None 1] [] None [] [] None [])
          [Other ''Pass'' [] (Some 2)]
          [] None [] 1]
       []) =
   [Node (Module
       [FunctionDef ''f''
          (Arguments [Arg ''a'' None 1] [] None [] [] None [])
          [Other ''Pass'' [] (Some 2)]
          [] None [] 1]
       []),
    Node (FunctionDef ''f''
          (Arguments [Arg ''a'' None 1] [] None [] [] None [])
          [Other ''Pass'' [] (Some 2)]
          [] None [] 1),
    ArgumentsNode (Arguments [Arg ''a'' None 1] [] None [] [] None []),
    Node (Other ''Pass'' [] (Some 2)),
    ArgNode (Arg ''a'' None 1)]"
  by (simp add: walk_def)

lemma walk_tree_import_two:
  "walk (Module [Import [Alias ''os'' None, Alias ''sys'' None] 1] []) =
     [Node (Module [Import [Alias ''os'' None, Alias ''sys'' None] 1] []),
      Node (Import [Alias ''os'' None, Alias ''sys'' None] 1),
      AliasNode (Alias ''os'' None),
      AliasNode (Alias ''sys'' None)]"
  by (simp add: walk_def)

lemma walk_tree_from_import:
  "walk (Module [ImportFrom (Some ''m'') [Alias ''n'' None] 0 1] []) =
     [Node (Module [ImportFrom (Some ''m'') [Alias ''n'' None] 0 1] []),
      Node (ImportFrom (Some ''m'') [Alias ''n'' None] 0 1),
      AliasNode (Alias ''n'' None)]"
  by (simp add: walk_def)

lemma analyze_tree_import_two:
  assumes "ast_parse rt code_snippet = Inr tree_import_two"
  shows "analyze_code rt code_snippet =
           Inr \<lparr>an_functions = [], an_variables = [], an_loops = [], an_conditionals = [],
                an_imports = [\<lparr>imp_name = ''os'', imp_lineno = 1\<rparr>], an_docstrings = []\<rparr>"
  using assms
  by (simp add: analyze_code_def walk_tree_import_two extract_docstrings_def
      docstring_of_body_def tree_import_two_def)









section \<open>Deduplication\<close>

lemma list_of_dict_setitem:
  "list_of_dict (dict_setitem d k v) =
     (if k \<in> set (list_of_dict d) then list_of_dict d else list_of_dict d @ [k])"
  by (induction d) (force simp: list_of_dict_def)+

lemma dict_fromkeys_snoc:
  "dict_fromkeys (keys @ [k]) = dict_setitem (dict_fromkeys keys) k ()"
  by (simp add: dict_fromkeys_def)

lemma list_of_dict_fromkeys_snoc:
  "list_of_dict (dict_fromkeys (keys @ [k])) =
     (if k \<in> set (list_of_dict (dict_fromkeys keys)) then list_of_dict (dict_fromkeys keys)
      else list_of_dict (dict_fromkeys keys) @ [k])"
  by (simp only: dict_fromkeys_snoc list_of_dict_setitem)

lemma list_of_dict_fromkeys_Nil: "list_of_dict (dict_fromkeys []) = []"
  by (simp add: dict_fromkeys_def list_of_dict_def)

lemma set_list_of_dict_fromkeys: "set (list_of_dict (dict_fromkeys keys)) = set keys"
proof (induction keys rule: rev_induct)
  case Nil
  show ?case by (simp add: list_of_dict_fromkeys_Nil)
next
  case (snoc k keys)
  then show ?case by (auto simp: list_of_dict_fromkeys_snoc)
qed

lemma distinct_list_of_dict_fromkeys: "distinct (list_of_dict (dict_fromkeys keys))"
proof (induction keys rule: rev_induct)
  case Nil
  show ?case by (simp add: list_of_dict_fromkeys_Nil)
next
  case (snoc k keys)
  then show ?case by (simp add: list_of_dict_fromkeys_snoc)
qed

lemma subseq_list_of_dict_fromkeys: "subseq (list_of_dict (dict_fromkeys keys)) keys"
proof (induction keys rule: rev_induct)
  case Nil
  show ?case by (simp add: list_of_dict_fromkeys_Nil)
next
  case (snoc k keys)
  show ?case
  proof (cases "k \<in> set (list_of_dict (dict_fromkeys keys))")
    case True
    with snoc show ?thesis
      by (simp add: list_of_dict_fromkeys_snoc subseq_rev_drop_many)
  next
    case False
    with snoc show ?thesis
      by (simp add: list_of_dict_fromkeys_snoc)
  qed
qed

lemma list_of_dict_fromkeys_first_occurrences:
  "list_of_dict (dict_fromkeys keys) =
     map (\<lambda>i. keys ! i) (filter (\<lambda>i. keys ! i \<notin> set (take i keys)) [0..<length keys])"
proof (induction keys rule: rev_induct)
  case Nil
  show ?case by (simp add: list_of_dict_fromkeys_Nil)
next
  case (snoc k keys)
  let ?keep = "\<lambda>ks i. ks ! i \<notin> set (take i ks)"
  have old: "map (\<lambda>i. (keys @ [k]) ! i) (filter (?keep (keys @ [k])) [0..<length keys]) =
             map (\<lambda>i. keys ! i) (filter (?keep keys) [0..<length keys])"
  proof -
    have "filter (?keep (keys @ [k])) [0..<length keys] = filter (?keep keys) [0..<length keys]"
      by (rule filter_cong) (simp_all add: nth_append)
    moreover have "map (\<lambda>i. (keys @ [k]) ! i) (filter (?keep keys) [0..<length keys]) =
                   map (\<lambda>i. keys ! i) (filter (?keep keys) [0..<length keys])"
      by (rule map_cong) (simp_all add: nth_append)
    ultimately show ?thesis by simp
  qed
  have last: "?keep (keys @ [k]) (length keys) \<longleftrightarrow> k \<notin> set keys"
    by simp
  have step: "map (\<lambda>i. (keys @ [k]) ! i)
                (filter (?keep (keys @ [k])) [0..<length (keys @ [k])]) =
              map (\<lambda>i. keys ! i) (filter (?keep keys) [0..<length keys])
                @ (if k \<in> set keys then [] else [k])"
  proof -
    have "[0..<length (keys @ [k])] = [0..<length keys] @ [length keys]"
      by simp
    then have "map (\<lambda>i. (keys @ [k]) ! i)
                 (filter (?keep (keys @ [k])) [0..<length (keys @ [k])]) =
               map (\<lambda>i. (keys @ [k]) ! i) (filter (?keep (keys @ [k])) [0..<length keys])
                 @ map (\<lambda>i. (keys @ [k]) ! i) (filter (?keep (keys @ [k])) [length keys])"
      by (simp only: filter_append map_append)
    also have "map (\<lambda>i. (keys @ [k]) ! i) (filter (?keep (keys @ [k])) [length keys]) =
               (if k \<in> set keys then [] else [k])"
      using last by simp
    finally show ?thesis
      by (simp only: old)
  qed
  have "list_of_dict (dict_fromkeys (keys @ [k])) =
        list_of_dict (dict_fromkeys keys) @ (if k \<in> set keys then [] else [k])"
    by (simp add: list_of_dict_fromkeys_snoc set_list_of_dict_fromkeys)
  also have "\<dots> = map (\<lambda>i. keys ! i) (filter (?keep keys) [0..<length keys])
                      @ (if k \<in> set keys then [] else [k])"
    by (simp only: snoc.IH)
  finally show ?case
    by (simp only: step)
qed

text \<open>
  Claim C7. For every sequence of rendered question strings, the deduplication
  \<open>list(dict.fromkeys(questions))\<close> keeps exactly the first occurrence of each distinct
  string, under equality of strings: the result is the list of the entries \<open>questions[i]\<close>
  that do not occur before position \<open>i\<close>, in the order of these positions. Hence no
  string is in the result twice, every string of \<open>questions\<close> is in it, and it is a
  subsequence of \<open>questions\<close>: two equal strings leave one entry, where the first of
  them stands among the first occurrences. The pool of \<open>generate_questions\<close> is this list
  for the rendered questions.
\<close>

theorem deduplication_keeps_first_occurrences:
  fixes questions :: "string list"
  shows "list_of_dict (dict_fromkeys questions) =
           map (\<lambda>i. questions ! i)
             (filter (\<lambda>i. questions ! i \<notin> set (take i questions)) [0..<length questions])
         \<and> distinct (list_of_dict (dict_fromkeys questions))
         \<and> set (list_of_dict (dict_fromkeys questions)) = set questions
         \<and> subseq (list_of_dict (dict_fromkeys questions)) questions
         \<and> unique_questions a = list_of_dict (dict_fromkeys (questions_of a))"
proof (intro conjI)
  show "list_of_dict (dict_fromkeys questions) =
          map (\<lambda>i. questions ! i)
            (filter (\<lambda>i. questions ! i \<notin> set (take i questions)) [0..<length questions])"
    by (rule list_of_dict_fromkeys_first_occurrences)
  show "distinct (list_of_dict (dict_fromkeys questions))"
    by (rule distinct_list_of_dict_fromkeys)
  show "set (list_of_dict (dict_fromkeys questions)) = set questions"
    by (rule set_list_of_dict_fromkeys)
  show "subseq (list_of_dict (dict_fromkeys questions)) questions"
    by (rule subseq_list_of_dict_fromkeys)
  show "unique_questions a = list_of_dict (dict_fromkeys (questions_of a))"
    by (simp add: unique_questions_def)
qed

theorem deduplication_keeps_first_occurrences_witness:
  "list_of_dict (dict_fromkeys [''q1'', ''q2'', ''q1'', ''q3'', ''q2'']) = [''q1'', ''q2'', ''q3'']"
proof -
  let ?qs = "[''q1'', ''q2'', ''q1'', ''q3'', ''q2'']"
  have "list_of_dict (dict_fromkeys ?qs) =
          map (\<lambda>i. ?qs ! i) (filter (\<lambda>i. ?qs ! i \<notin> set (take i ?qs)) [0..<length ?qs])"
    using deduplication_keeps_first_occurrences [of ?qs] by (rule conjunct1)
  also have "\<dots> = [''q1'', ''q2'', ''q3'']"
    by code_simp
  finally show ?thesis .
qed

section \<open>The outcomes of \<open>generate_questions\<close>\<close>

lemma choice_empty:
  "choice rt g [] = (Inl (IndexError ''Cannot choose from an empty sequence''), g)"
  by (simp add: choice_def)

lemma choice_member:
  assumes "seq \<noteq> []" and "fst (randbelow rt g (length seq)) < length seq"
  shows "\<exists>x g'. choice rt g seq = (Inr x, g') \<and> x \<in> set seq"
proof -
  obtain i g' where draw: "randbelow rt g (length seq) = (i, g')"
    by (cases "randbelow rt g (length seq)")
  with assms(2) have "i < length seq" by simp
  with assms(1) draw have "choice rt g seq = (Inr (seq ! i), g')"
    by (simp add: choice_def)
  moreover from \<open>i < length seq\<close> have "seq ! i \<in> set seq"
    by (rule nth_mem)
  ultimately show ?thesis by blast
qed

lemma analyze_code_syntax_error:
  "ast_parse rt code_snippet = Inl e \<Longrightarrow> analyze_code rt code_snippet = Inl e"
  by (simp add: analyze_code_def)

lemma generate_questions_error:
  "analyze_code rt code_snippet = Inl e \<Longrightarrow>
   generate_questions rt g code_snippet = (Inr (StrList [''Error analyzing code: '' @ e]), g)"
  by (simp add: generate_questions_def)

lemma generate_questions_choice:
  "analyze_code rt code_snippet = Inr a \<Longrightarrow>
   generate_questions rt g code_snippet =
     (case choice rt g (unique_questions a) of
        (Inl e, g') \<Rightarrow> (Inl e, g')
      | (Inr question, g') \<Rightarrow> (Inr (Str question), g'))"
  by (simp add: generate_questions_def)

lemma set_unique_questions: "set (unique_questions a) = set (questions_of a)"
  by (simp add: unique_questions_def set_list_of_dict_fromkeys)



lemma generate_questions_from_pool:
  assumes "analyze_code rt code_snippet = Inr a"
    and "unique_questions a \<noteq> []"
    and "fst (randbelow rt g (length (unique_questions a))) < length (unique_questions a)"
  shows "\<exists>question g'. generate_questions rt g code_snippet = (Inr (Str question), g')
           \<and> question \<in> set (unique_questions a)"
proof -
  from assms(2,3) have "\<exists>x g'. choice rt g (unique_questions a) = (Inr x, g')
      \<and> x \<in> set (unique_questions a)"
    by (rule choice_member)
  then obtain question g' where
    chosen: "choice rt g (unique_questions a) = (Inr question, g')"
    and member: "question \<in> set (unique_questions a)"
    by (elim exE conjE)
  from assms(1) have "generate_questions rt g code_snippet =
     (case choice rt g (unique_questions a) of
        (Inl e, g') \<Rightarrow> (Inl e, g')
      | (Inr question, g') \<Rightarrow> (Inr (Str question), g'))"
    by (rule generate_questions_choice)
  then have "generate_questions rt g code_snippet = (Inr (Str question), g')"
    by (simp add: chosen)
  with member show ?thesis by (intro conjI exI)
qed


text \<open>
  Claim C3. For every input that the parser rejects, with the message \<open>message\<close> of its
  exception, \<open>analyze_code\<close> returns the error with exactly this message and none of the
  six lists of facts, and \<open>generate_questions\<close> returns the one-element list with the
  message before any question is rendered or chosen: its result does not depend on the
  random source, whose state \<open>g\<close> is handed back as it was.
\<close>

theorem syntax_error_stops_before_synthesis:
  assumes "ast_parse rt code_snippet = Inl message"
  shows "analyze_code rt code_snippet = Inl message
         \<and> generate_questions rt g code_snippet =
             (Inr (StrList [''Error analyzing code: '' @ message]), g)"
proof
  show analysis: "analyze_code rt code_snippet = Inl message"
    using assms by (rule analyze_code_syntax_error)
  then show "generate_questions rt g code_snippet =
               (Inr (StrList [''Error analyzing code: '' @ message]), g)"
    by (rule generate_questions_error)
qed

theorem syntax_error_stops_before_synthesis_witness:
  "ast_parse example_runtime ''def'' = Inl ''invalid syntax (<unknown>, line 1)''
   \<and> analyze_code example_runtime ''def'' = Inl ''invalid syntax (<unknown>, line 1)''
   \<and> generate_questions example_runtime (0::nat) ''def'' =
       (Inr (StrList [''Error analyzing code: invalid syntax (<unknown>, line 1)'']), 0)"
proof -
  have rejected: "ast_parse example_runtime ''def'' = Inl ''invalid syntax (<unknown>, line 1)''"
    by (simp add: example_runtime_simps example_parse_simps)
  from syntax_error_stops_before_synthesis [OF rejected, of 0] rejected show ?thesis
    by simp
qed

text \<open>
  Claim C1. For every snippet that parses and whose pool of rendered and deduplicated
  questions is empty, \<open>generate_questions\<close> does not return: it fails with the
  \<open>IndexError\<close> that \<open>random.choice\<close> raises on an empty sequence. This outcome is
  distinct from the one of a snippet that the parser rejects, which is a returned list
  with the text \<open>Error analyzing code\<close> and the parser's message.
\<close>

theorem empty_pool_raises_IndexError:
  assumes "ast_parse rt code_snippet = Inr tree"
    and "analyze_code rt code_snippet = Inr a"
    and "unique_questions a = []"
  shows "generate_questions rt g code_snippet =
           (Inl (IndexError ''Cannot choose from an empty sequence''), g)
         \<and> (\<forall>rejected message g'. ast_parse rt rejected = Inl message \<longrightarrow>
               generate_questions rt g' rejected =
                 (Inr (StrList [''Error analyzing code: '' @ message]), g')
               \<and> fst (generate_questions rt g' rejected) \<noteq> fst (generate_questions rt g code_snippet))"
proof -
  have empty: "generate_questions rt g code_snippet =
           (Inl (IndexError ''Cannot choose from an empty sequence''), g)"
    using assms(2,3) by (simp add: generate_questions_choice choice_empty)
  have "generate_questions rt g' rejected =
          (Inr (StrList [''Error analyzing code: '' @ message]), g')
        \<and> fst (generate_questions rt g' rejected) \<noteq> fst (generate_questions rt g code_snippet)"
    if "ast_parse rt rejected = Inl message" for rejected message g'
  proof -
    from that have "analyze_code rt rejected = Inl message"
      by (rule analyze_code_syntax_error)
    then have "generate_questions rt g' rejected =
          (Inr (StrList [''Error analyzing code: '' @ message]), g')"
      by (rule generate_questions_error)
    with empty show ?thesis by simp
  qed
  with empty show ?thesis by blast
qed

theorem empty_pool_raises_IndexError_witness:
  "ast_parse example_runtime ''42'' = Inr tree_literal
   \<and> analyze_code example_runtime ''42'' =
       Inr \<lparr>an_functions = [], an_variables = [], an_loops = [], an_conditionals = [],
            an_imports = [], an_docstrings = []\<rparr>
   \<and> generate_questions example_runtime (0::nat) ''42'' =
       (Inl (IndexError ''Cannot choose from an empty sequence''), 0)
   \<and> fst (generate_questions example_runtime (0::nat) ''def'')
       \<noteq> fst (generate_questions example_runtime (0::nat) ''42'')"
proof -
  have parsed: "ast_parse example_runtime ''42'' = Inr tree_literal"
    by (simp add: example_runtime_simps example_parse_simps)
  have analysed: "analyze_code example_runtime ''42'' =
       Inr \<lparr>an_functions = [], an_variables = [], an_loops = [], an_conditionals = [],
            an_imports = [], an_docstrings = []\<rparr>"
    using parsed by (rule analyze_tree_literal)
  have rejected: "ast_parse example_runtime ''def'' = Inl ''invalid syntax (<unknown>, line 1)''"
    by (simp add: example_runtime_simps example_parse_simps)
  from empty_pool_raises_IndexError [OF parsed analysed unique_questions_no_facts, of 0]
    rejected parsed analysed
  show ?thesis by blast
qed









section \<open>The examples of the specification\<close>

text \<open>
  Claim C5. For the input \<open>def add(a, b):\<close>, newline, \<open>return a + b\<close> (indented by four
  spaces), whose tree is \<open>tree_add\<close>, the analysis has exactly one function record (name
  \<open>add\<close>, line 1, arguments \<open>a\<close> and \<open>b\<close>), exactly the two variable records \<open>a\<close> and \<open>b\<close>
  at line 2 and nothing else; the deduplicated pool is exactly the four questions about
  the function, its arguments and the two variables; and \<open>generate_questions\<close> returns
  one of these four strings, whatever index below 4 the random source draws.
\<close>

theorem add_example:
  assumes "ast_parse rt ''def add(a, b):\<newline>    return a + b'' = Inr tree_add"
    and "\<forall>n. 0 < n \<longrightarrow> fst (randbelow rt g n) < n"
  shows "analyze_code rt ''def add(a, b):\<newline>    return a + b'' =
           Inr \<lparr>an_functions = [\<lparr>fn_name = ''add'', fn_lineno = 1, fn_args = [''a'', ''b'']\<rparr>],
                an_variables = [\<lparr>var_name = ''a'', var_lineno = 2\<rparr>,
                                \<lparr>var_name = ''b'', var_lineno = 2\<rparr>],
                an_loops = [], an_conditionals = [], an_imports = [], an_docstrings = []\<rparr>
         \<and> unique_questions
             \<lparr>an_functions = [\<lparr>fn_name = ''add'', fn_lineno = 1, fn_args = [''a'', ''b'']\<rparr>],
              an_variables = [\<lparr>var_name = ''a'', var_lineno = 2\<rparr>,
                              \<lparr>var_name = ''b'', var_lineno = 2\<rparr>],
              an_loops = [], an_conditionals = [], an_imports = [], an_docstrings = []\<rparr> =
             [''What does the function 'add' at line 1 do?'',
              ''What are the purposes of the arguments in the function 'add'?'',
              ''What is the role of the variable 'a' at line 2?'',
              ''What is the role of the variable 'b' at line 2?'']
         \<and> (\<exists>question g'.
               generate_questions rt g ''def add(a, b):\<newline>    return a + b'' =
                 (Inr (Str question), g')
               \<and> question \<in>
                   {''What does the function 'add' at line 1 do?'',
                    ''What are the purposes of the arguments in the function 'add'?'',
                    ''What is the role of the variable 'a' at line 2?'',
                    ''What is the role of the variable 'b' at line 2?''})"
proof -
  let ?s = "''def add(a, b):\<newline>    return a + b''"
  let ?a = "\<lparr>an_functions = [\<lparr>fn_name = ''add'', fn_lineno = 1, fn_args = [''a'', ''b'']\<rparr>],
             an_variables = [\<lparr>var_name = ''a'', var_lineno = 2\<rparr>,
                             \<lparr>var_name = ''b'', var_lineno = 2\<rparr>],
             an_loops = [], an_conditionals = [], an_imports = [], an_docstrings = []\<rparr>"
  have analysed: "analyze_code rt ?s = Inr ?a"
    using assms(1) by (rule analyze_tree_add)
  have pool: "unique_questions ?a =
             [''What does the function 'add' at line 1 do?'',
              ''What are the purposes of the arguments in the function 'add'?'',
              ''What is the role of the variable 'a' at line 2?'',
              ''What is the role of the variable 'b' at line 2?'']"
    by (rule unique_questions_add)
  have nonempty: "unique_questions ?a \<noteq> []"
    by (simp add: pool)
  have draw: "fst (randbelow rt g (length (unique_questions ?a))) < length (unique_questions ?a)"
    using assms(2) by (simp add: pool)
  have "\<exists>question g'. generate_questions rt g ?s = (Inr (Str question), g')
           \<and> question \<in> set (unique_questions ?a)"
    using analysed nonempty draw by (rule generate_questions_from_pool)
  then have "\<exists>question g'. generate_questions rt g ?s = (Inr (Str question), g')
           \<and> question \<in>
                   {''What does the function 'add' at line 1 do?'',
                    ''What are the purposes of the arguments in the function 'add'?'',
                    ''What is the role of the variable 'a' at line 2?'',
                    ''What is the role of the variable 'b' at line 2?''}"
    by (simp only: pool) simp
  with analysed pool show ?thesis by (intro conjI)
qed

theorem add_example_witness:
  "ast_parse example_runtime ''def add(a, b):\<newline>    return a + b'' = Inr tree_add
   \<and> generate_questions example_runtime (1::nat) ''def add(a, b):\<newline>    return a + b'' =
       (Inr (Str ''What are the purposes of the arguments in the function 'add'?''), 2)"
proof -
  let ?s = "''def add(a, b):\<newline>    return a + b''"
  have parsed: "ast_parse example_runtime ?s = Inr tree_add"
    using example_parse_simps(1) by (simp add: example_runtime_simps snippet_add_def)
  have draws: "\<forall>n. 0 < n \<longrightarrow> fst (randbelow example_runtime (1::nat) n) < n"
    by (simp add: example_runtime_simps)
  note example = add_example [OF parsed draws]
  have analysed: "analyze_code example_runtime ?s =
           Inr \<lparr>an_functions = [\<lparr>fn_name = ''add'', fn_lineno = 1, fn_args = [''a'', ''b'']\<rparr>],
                an_variables = [\<lparr>var_name = ''a'', var_lineno = 2\<rparr>,
                                \<lparr>var_name = ''b'', var_lineno = 2\<rparr>],
                an_loops = [], an_conditionals = [], an_imports = [], an_docstrings = []\<rparr>"
    by (rule example [THEN conjunct1])
  note pool = example [THEN conjunct2, THEN conjunct1]
  have chosen: "generate_questions example_runtime 1 ?s =
       (Inr (Str ''What are the purposes of the arguments in the function 'add'?''), 2)"
    by (simp add: generate_questions_def analysed pool choice_def example_runtime_simps)
  show ?thesis
    by (intro conjI) (rule parsed, rule chosen)
qed

text \<open>
  Claim C9. An assignment target counts as a variable occurrence: for the input \<open>x = 1\<close>,
  whose tree is \<open>tree_assign\<close>, the analysis has exactly one variable record, \<open>x\<close> at
  line 1, and nothing else, so the pool is not empty: it is the one question about \<open>x\<close>.
  The reason is that every \<open>Name\<close> node yields a record, whatever its context \<open>ctx\<close>
  (\<open>Load\<close>, \<open>Store\<close> or \<open>Del\<close>) is.
\<close>

theorem assignment_target_is_variable:
  assumes "ast_parse rt ''x = 1'' = Inr tree_assign"
  shows "analyze_code rt ''x = 1'' =
           Inr \<lparr>an_functions = [], an_variables = [\<lparr>var_name = ''x'', var_lineno = 1\<rparr>],
                an_loops = [], an_conditionals = [], an_imports = [], an_docstrings = []\<rparr>
         \<and> unique_questions
             \<lparr>an_functions = [], an_variables = [\<lparr>var_name = ''x'', var_lineno = 1\<rparr>],
              an_loops = [], an_conditionals = [], an_imports = [], an_docstrings = []\<rparr> =
             [''What is the role of the variable 'x' at line 1?'']
         \<and> variable_entry (Node (Name ident ctx l)) = [\<lparr>var_name = ident, var_lineno = l\<rparr>]"
proof (intro conjI)
  show "analyze_code rt ''x = 1'' =
           Inr \<lparr>an_functions = [], an_variables = [\<lparr>var_name = ''x'', var_lineno = 1\<rparr>],
                an_loops = [], an_conditionals = [], an_imports = [], an_docstrings = []\<rparr>"
    using assms by (rule analyze_tree_assign)
  show "unique_questions
             \<lparr>an_functions = [], an_variables = [\<lparr>var_name = ''x'', var_lineno = 1\<rparr>],
              an_loops = [], an_conditionals = [], an_imports = [], an_docstrings = []\<rparr> =
             [''What is the role of the variable 'x' at line 1?'']"
    by (rule unique_questions_assign)
  show "variable_entry (Node (Name ident ctx l)) = [\<lparr>var_name = ident, var_lineno = l\<rparr>]"
    by simp
qed

theorem assignment_target_is_variable_witness:
  "ast_parse example_runtime ''x = 1'' = Inr tree_assign
   \<and> analyze_code example_runtime ''x = 1'' =
           Inr \<lparr>an_functions = [], an_variables = [\<lparr>var_name = ''x'', var_lineno = 1\<rparr>],
                an_loops = [], an_conditionals = [], an_imports = [], an_docstrings = []\<rparr>"
proof -
  have parsed: "ast_parse example_runtime ''x = 1'' = Inr tree_assign"
    by (simp add: example_runtime_simps example_parse_simps)
  show ?thesis
    by (intro conjI) (rule parsed, rule assignment_target_is_variable [OF parsed, THEN conjunct1])
qed

section \<open>The facts of the analysis\<close>

lemma walk_queue_mset: "mset (walk_queue todo) = mset (concat (map subtree todo))"
proof (induction todo rule: walk_queue.induct)
  case 1
  show ?case by simp
next
  case (2 n todo)
  have "mset (walk_queue (n # todo)) = {#n#} + mset (walk_queue (todo @ iter_child_nodes n))"
    by simp
  also have "\<dots> = {#n#} + mset (concat (map subtree (todo @ iter_child_nodes n)))"
    by (simp only: "2.IH")
  also have "\<dots> = mset (subtree n) + mset (concat (map subtree todo))"
    by (simp add: subtree.simps [of n])
  finally show ?case by simp
qed

lemma walk_mset: "mset (walk tree) = mset (subtree (Node tree))"
  unfolding walk_def walk_queue_mset by simp

lemma function_entries:
  "concat (map function_entry ns) =
     [\<lparr>fn_name = name, fn_lineno = l, fn_args = map arg_arg args\<rparr>.
        Node (FunctionDef name
                (Arguments posonlyargs args vararg kwonlyargs kw_defaults kwarg defaults)
                body decorator_list returns type_params l) \<leftarrow> ns]"
proof (induction ns)
  case Nil
  show ?case by simp
next
  case (Cons n ns)
  show ?case
  proof (cases n rule: function_entry.cases)
    case (1 name args body decorator_list returns type_params l)
    with Cons show ?thesis by (cases args) simp
  qed (use Cons in simp_all)
qed

lemma analyze_code_functions:
  assumes "ast_parse rt code_snippet = Inr tree"
    and "analyze_code rt code_snippet = Inr a"
  shows "an_functions a = concat (map function_entry (walk tree))"
  using assms by (auto simp: analyze_code_def split: sum.splits)

lemma collect_import_entries:
  "collect (concat (map import_entry ns)) = Inr imps \<Longrightarrow>
   imps = [\<lparr>imp_name = alias_name first, imp_lineno = l\<rparr>.
             Node (Import (first # others) l) \<leftarrow> ns]"
proof (induction ns arbitrary: imps)
  case Nil
  then show ?case by simp
next
  case (Cons n ns)
  show ?case
  proof (cases n rule: import_entry.cases)
    case (1 l)
    with Cons.prems show ?thesis by simp
  next
    case (2 a names l)
    with Cons.prems obtain imps' where
      rest: "collect (concat (map import_entry ns)) = Inr imps'"
      and imps: "imps = \<lparr>imp_name = alias_name a, imp_lineno = l\<rparr> # imps'"
      by (auto split: sum.splits)
    from rest have "imps' = [\<lparr>imp_name = alias_name first, imp_lineno = l\<rparr>.
             Node (Import (first # others) l) \<leftarrow> ns]"
      by (rule Cons.IH)
    with 2 imps show ?thesis by simp
  qed (use Cons in simp_all)
qed

lemma no_import_entries:
  "\<forall>names l. Node (Import names l) \<notin> set ns \<Longrightarrow> concat (map import_entry ns) = []"
proof (induction ns)
  case Nil
  then show ?case by simp
next
  case (Cons n ns)
  then show ?case
    by (cases n rule: import_entry.cases) auto
qed

lemma template_import_neq:
  "template_function name lineno \<noteq> template_import m"
  "template_function_args name \<noteq> template_import m"
  "template_variable name lineno \<noteq> template_import m"
  "template_loop lineno \<noteq> template_import m"
  "template_conditional lineno \<noteq> template_import m"
  "template_docstring doc \<noteq> template_import m"
  by (simp_all add: template_function_def template_function_args_def template_variable_def
      template_loop_def template_conditional_def template_docstring_def template_import_def)

lemma no_imports_no_import_question:
  assumes "an_imports a = []"
  shows "template_import m \<notin> set (questions_of a)"
  using assms
  by (auto simp: questions_of_def function_questions_def template_import_neq [THEN not_sym])

lemma questions_of_import_lineno:
  "questions_of (a\<lparr>an_imports := map (\<lambda>imp. imp\<lparr>imp_lineno := f imp\<rparr>) (an_imports a)\<rparr>) =
   questions_of a"
  by (simp add: questions_of_def o_def)

lemma analyze_code_imports:
  assumes "ast_parse rt code_snippet = Inr tree"
    and "analyze_code rt code_snippet = Inr a"
  shows "collect (concat (map import_entry (walk tree))) = Inr (an_imports a)"
  using assms by (auto simp: analyze_code_def split: sum.splits)

lemma template_import_inject: "template_import m = template_import m' \<longleftrightarrow> m = m'"
  by (simp add: template_import_def)

lemma template_import_text:
  "template_import m =
     ''Why is the module '' @ [CHR 0x27] @ m @ [CHR 0x27] @ '' imported, and how is it used?''"
  by (simp add: template_import_def apostrophe_def)

lemma import_question_iff:
  "template_import m \<in> set (questions_of a) \<longleftrightarrow> m \<in> imp_name ` set (an_imports a)"
proof -
  have "template_import m \<notin> set (concat (map function_questions (an_functions a)))"
    by (auto simp: function_questions_def template_import_neq [THEN not_sym])
  moreover have "template_import m \<in> (\<lambda>imp. template_import (imp_name imp)) ` set (an_imports a)
      \<longleftrightarrow> m \<in> imp_name ` set (an_imports a)"
    by (auto simp: template_import_inject)
  ultimately show ?thesis
    by (auto simp: questions_of_def template_import_neq [THEN not_sym])
qed

lemma first_names_of_imports:
  "m \<in> imp_name ` set [\<lparr>imp_name = alias_name first, imp_lineno = l\<rparr>.
                         Node (Import (first # others) l) \<leftarrow> ns]
   \<longleftrightarrow> (\<exists>first others l. Node (Import (first # others) l) \<in> set ns \<and> alias_name first = m)"
  by force

text \<open>
  Claim C2, amended. For every snippet that parses, the function records of the analysis
  are, in the order of \<open>ast.walk\<close>, one for each \<open>FunctionDef\<close> node and none for any
  other node, and \<open>ast.walk\<close> yields every object of the tree exactly once. Each record
  carries the declared name, the line of the definition, and the ordered names of the
  \<open>args\<close> list of the definition's \<open>arguments\<close>: its positional-or-keyword parameters
  (the empty list when it has none). Positional-only parameters, \<open>*args\<close>, keyword-only
  parameters and \<open>**kwargs\<close> are not in the list.
\<close>

theorem function_facts_of_definitions:
  assumes "ast_parse rt code_snippet = Inr tree"
    and "analyze_code rt code_snippet = Inr a"
  shows "an_functions a =
           [\<lparr>fn_name = name, fn_lineno = l, fn_args = map arg_arg args\<rparr>.
              Node (FunctionDef name
                      (Arguments posonlyargs args vararg kwonlyargs kw_defaults kwarg defaults)
                      body decorator_list returns type_params l) \<leftarrow> walk tree]
         \<and> mset (walk tree) = mset (subtree (Node tree))"
proof
  from assms have "an_functions a = concat (map function_entry (walk tree))"
    by (rule analyze_code_functions)
  then show "an_functions a =
           [\<lparr>fn_name = name, fn_lineno = l, fn_args = map arg_arg args\<rparr>.
              Node (FunctionDef name
                      (Arguments posonlyargs args vararg kwonlyargs kw_defaults kwarg defaults)
                      body decorator_list returns type_params l) \<leftarrow> walk tree]"
    by (simp only: function_entries)
  show "mset (walk tree) = mset (subtree (Node tree))"
    by (rule walk_mset)
qed

theorem function_facts_of_definitions_witness:
  "ast_parse example_runtime ''def add(a, b):\<newline>    return a + b'' = Inr tree_add
   \<and> analyze_code example_runtime ''def add(a, b):\<newline>    return a + b'' =
       Inr \<lparr>an_functions = [\<lparr>fn_name = ''add'', fn_lineno = 1, fn_args = [''a'', ''b'']\<rparr>],
                an_variables = [\<lparr>var_name = ''a'', var_lineno = 2\<rparr>,
                                \<lparr>var_name = ''b'', var_lineno = 2\<rparr>],
                an_loops = [], an_conditionals = [], an_imports = [], an_docstrings = []\<rparr>
   \<and> [\<lparr>fn_name = name, fn_lineno = l, fn_args = map arg_arg args\<rparr>.
              Node (FunctionDef name
                      (Arguments posonlyargs args vararg kwonlyargs kw_defaults kwarg defaults)
                      body decorator_list returns type_params l) \<leftarrow> walk tree_add] =
       [\<lparr>fn_name = ''add'', fn_lineno = 1, fn_args = [''a'', ''b'']\<rparr>]"
proof -
  let ?s = "''def add(a, b):\<newline>    return a + b''"
  have parsed: "ast_parse example_runtime ?s = Inr tree_add"
    using example_parse_simps(1) by (simp add: example_runtime_simps snippet_add_def)
  then have analysed: "analyze_code example_runtime ?s =
       Inr \<lparr>an_functions = [\<lparr>fn_name = ''add'', fn_lineno = 1, fn_args = [''a'', ''b'']\<rparr>],
                an_variables = [\<lparr>var_name = ''a'', var_lineno = 2\<rparr>,
                                \<lparr>var_name = ''b'', var_lineno = 2\<rparr>],
                an_loops = [], an_conditionals = [], an_imports = [], an_docstrings = []\<rparr>"
    by (rule analyze_tree_add)
  note facts = function_facts_of_definitions [OF parsed analysed, THEN conjunct1, symmetric]
  have "[\<lparr>fn_name = name, fn_lineno = l, fn_args = map arg_arg args\<rparr>.
              Node (FunctionDef name
                      (Arguments posonlyargs args vararg kwonlyargs kw_defaults kwarg defaults)
                      body decorator_list returns type_params l) \<leftarrow> walk tree_add] =
       [\<lparr>fn_name = ''add'', fn_lineno = 1, fn_args = [''a'', ''b'']\<rparr>]"
    by (simp only: facts) simp
  with parsed analysed show ?thesis by (intro conjI)
qed

text \<open>
  The claim as it is stated asks for the names of all formal positional parameters. For
  \<open>def f(a, /): pass\<close> (the body on a line of its own), the function \<open>f\<close> has the
  positional parameter \<open>a\<close>, and the record of the analysis has no argument.
\<close>

theorem positional_only_parameters_omitted:
  "ast_parse example_runtime ''def f(a, /):\<newline>    pass'' = Inr tree_posonly
   \<and> analyze_code example_runtime ''def f(a, /):\<newline>    pass'' =
       Inr \<lparr>an_functions = [\<lparr>fn_name = ''f'', fn_lineno = 1, fn_args = []\<rparr>],
            an_variables = [], an_loops = [], an_conditionals = [], an_imports = [],
            an_docstrings = []\<rparr>
   \<and> spec_function_facts tree_posonly = [\<lparr>fn_name = ''f'', fn_lineno = 1, fn_args = [''a'']\<rparr>]
   \<and> [\<lparr>fn_name = ''f'', fn_lineno = 1, fn_args = []\<rparr>] \<noteq> spec_function_facts tree_posonly"
proof -
  have parsed: "ast_parse example_runtime ''def f(a, /):\<newline>    pass'' = Inr tree_posonly"
    by (simp add: example_runtime_simps example_parse_simps)
  then have analysed: "analyze_code example_runtime ''def f(a, /):\<newline>    pass'' =
       Inr \<lparr>an_functions = [\<lparr>fn_name = ''f'', fn_lineno = 1, fn_args = []\<rparr>],
            an_variables = [], an_loops = [], an_conditionals = [], an_imports = [],
            an_docstrings = []\<rparr>"
    by (simp add: analyze_code_def walk_tree_posonly extract_docstrings_def
        docstring_of_body_def tree_posonly_def)
  have spec: "spec_function_facts tree_posonly =
      [\<lparr>fn_name = ''f'', fn_lineno = 1, fn_args = [''a'']\<rparr>]"
    by (simp add: spec_function_facts_def walk_tree_posonly tree_posonly_def)
  then have "[\<lparr>fn_name = ''f'', fn_lineno = 1, fn_args = []\<rparr>] \<noteq> spec_function_facts tree_posonly"
    by simp
  with parsed analysed spec show ?thesis by (intro conjI)
qed

text \<open>
  Claim C8. For every snippet that parses, the import records are, in the order of
  \<open>ast.walk\<close>, one for each \<open>Import\<close> node, with the name of the first alias of the
  statement and the statement's line; the aliases after the first leave no trace. The
  question \<open>Why is the module 'm' imported, and how is it used?\<close> is in the pool exactly for
  the names \<open>m\<close> that stand first in an import statement of the snippet: the question is
  this text around the retained name, with no line number in it. And the candidate
  questions do not change when the line numbers of the import records are replaced by any
  others: the line number is never used.
\<close>

theorem import_keeps_first_name:
  assumes "ast_parse rt code_snippet = Inr tree"
    and "analyze_code rt code_snippet = Inr a"
  shows "an_imports a =
           [\<lparr>imp_name = alias_name first, imp_lineno = l\<rparr>.
              Node (Import (first # others) l) \<leftarrow> walk tree]
         \<and> (\<forall>m. ''Why is the module '' @ [CHR 0x27] @ m @ [CHR 0x27]
                   @ '' imported, and how is it used?'' \<in> set (unique_questions a)
                 \<longleftrightarrow> (\<exists>first others l. Node (Import (first # others) l) \<in> set (walk tree)
                        \<and> alias_name first = m))
         \<and> questions_of (a\<lparr>an_imports := map (\<lambda>imp. imp\<lparr>imp_lineno := f imp\<rparr>) (an_imports a)\<rparr>) =
             questions_of a"
proof (intro conjI)
  from assms have "collect (concat (map import_entry (walk tree))) = Inr (an_imports a)"
    by (rule analyze_code_imports)
  then show records: "an_imports a =
           [\<lparr>imp_name = alias_name first, imp_lineno = l\<rparr>.
              Node (Import (first # others) l) \<leftarrow> walk tree]"
    by (rule collect_import_entries)
  show "\<forall>m. ''Why is the module '' @ [CHR 0x27] @ m @ [CHR 0x27]
                   @ '' imported, and how is it used?'' \<in> set (unique_questions a)
                 \<longleftrightarrow> (\<exists>first others l. Node (Import (first # others) l) \<in> set (walk tree)
                        \<and> alias_name first = m)"
  proof
    fix m
    have "template_import m \<in> set (unique_questions a)
        \<longleftrightarrow> m \<in> imp_name ` set (an_imports a)"
      by (simp only: set_unique_questions import_question_iff)
    also have "\<dots> \<longleftrightarrow> (\<exists>first others l. Node (Import (first # others) l) \<in> set (walk tree)
                        \<and> alias_name first = m)"
      by (simp only: records first_names_of_imports)
    finally show "''Why is the module '' @ [CHR 0x27] @ m @ [CHR 0x27]
                   @ '' imported, and how is it used?'' \<in> set (unique_questions a)
                 \<longleftrightarrow> (\<exists>first others l. Node (Import (first # others) l) \<in> set (walk tree)
                        \<and> alias_name first = m)"
      by (simp only: template_import_text)
  qed
  show "questions_of (a\<lparr>an_imports := map (\<lambda>imp. imp\<lparr>imp_lineno := f imp\<rparr>) (an_imports a)\<rparr>) =
             questions_of a"
    by (rule questions_of_import_lineno)
qed

theorem import_keeps_first_name_witness:
  "ast_parse example_runtime ''import os, sys'' = Inr tree_import_two
   \<and> analyze_code example_runtime ''import os, sys'' =
       Inr \<lparr>an_functions = [], an_variables = [], an_loops = [], an_conditionals = [],
            an_imports = [\<lparr>imp_name = ''os'', imp_lineno = 1\<rparr>], an_docstrings = []\<rparr>
   \<and> ''Why is the module 'os' imported, and how is it used?''
       \<in> set (unique_questions
           \<lparr>an_functions = [], an_variables = [], an_loops = [], an_conditionals = [],
            an_imports = [\<lparr>imp_name = ''os'', imp_lineno = 1\<rparr>], an_docstrings = []\<rparr>)
   \<and> ''Why is the module 'sys' imported, and how is it used?''
       \<notin> set (unique_questions
           \<lparr>an_functions = [], an_variables = [], an_loops = [], an_conditionals = [],
            an_imports = [\<lparr>imp_name = ''os'', imp_lineno = 1\<rparr>], an_docstrings = []\<rparr>)"
proof -
  let ?a = "\<lparr>an_functions = [], an_variables = [], an_loops = [], an_conditionals = [],
            an_imports = [\<lparr>imp_name = ''os'', imp_lineno = 1\<rparr>], an_docstrings = []\<rparr>"
  have parsed: "ast_parse example_runtime ''import os, sys'' = Inr tree_import_two"
    by (simp add: example_runtime_simps example_parse_simps)
  then have analysed: "analyze_code example_runtime ''import os, sys'' = Inr ?a"
    by (rule analyze_tree_import_two)
  note pool = import_keeps_first_name [OF parsed analysed, THEN conjunct2, THEN conjunct1]
  have os: "''Why is the module 'os' imported, and how is it used?'' \<in> set (unique_questions ?a)"
    using pool [THEN spec, of "''os''"]
    by (simp add: tree_import_two_def walk_tree_import_two)
  have sys: "''Why is the module 'sys' imported, and how is it used?''
      \<notin> set (unique_questions ?a)"
    using pool [THEN spec, of "''sys''"]
    by (simp add: tree_import_two_def walk_tree_import_two)
  show ?thesis
    by (intro conjI) (rule parsed, rule analysed, rule os, rule sys)
qed

text \<open>
  Claim C10. A from-import yields no import record: \<open>ImportFrom\<close> is not \<open>Import\<close>. So
  for every snippet that parses and whose tree has no plain \<open>Import\<close> node (its only
  imports are from-imports), the analysis succeeds with an empty list of imports, and no
  question of the template \<open>import\<close>, for any module name, is in the pool.
\<close>

theorem from_import_yields_no_import:
  assumes "ast_parse rt code_snippet = Inr tree"
    and "\<forall>names l. Node (Import names l) \<notin> set (walk tree)"
  shows "(\<exists>a. analyze_code rt code_snippet = Inr a \<and> an_imports a = []
            \<and> (\<forall>m. template_import m \<notin> set (unique_questions a)))
         \<and> import_entry (Node (ImportFrom modname names level l)) = []"
proof
  from assms(2) have none: "concat (map import_entry (walk tree)) = []"
    by (rule no_import_entries)
  define a where "a = \<lparr>an_functions = concat (map function_entry (walk tree)),
                        an_variables = concat (map variable_entry (walk tree)),
                        an_loops = concat (map loop_entry (walk tree)),
                        an_conditionals = concat (map conditional_entry (walk tree)),
                        an_imports = [],
                        an_docstrings = extract_docstrings rt tree\<rparr>"
  have analysed: "analyze_code rt code_snippet = Inr a"
    using assms(1) by (simp add: analyze_code_def none a_def)
  have no_imports: "an_imports a = []"
    by (simp add: a_def)
  then have "\<forall>m. template_import m \<notin> set (unique_questions a)"
    by (simp add: set_unique_questions no_imports_no_import_question)
  with analysed no_imports
  show "\<exists>a. analyze_code rt code_snippet = Inr a \<and> an_imports a = []
            \<and> (\<forall>m. template_import m \<notin> set (unique_questions a))"
    by (intro exI conjI)
  show "import_entry (Node (ImportFrom modname names level l)) = []"
    by simp
qed

theorem from_import_yields_no_import_witness:
  "ast_parse example_runtime ''from m import n'' = Inr tree_from_import
   \<and> (\<forall>names l. Node (Import names l) \<notin> set (walk tree_from_import))
   \<and> analyze_code example_runtime ''from m import n'' =
       Inr \<lparr>an_functions = [], an_variables = [], an_loops = [], an_conditionals = [],
            an_imports = [], an_docstrings = []\<rparr>
   \<and> (\<exists>a. analyze_code example_runtime ''from m import n'' = Inr a \<and> an_imports a = []
            \<and> (\<forall>m. template_import m \<notin> set (unique_questions a)))"
proof -
  have parsed: "ast_parse example_runtime ''from m import n'' = Inr tree_from_import"
    by (simp add: example_runtime_simps example_parse_simps)
  have plain: "\<forall>names l. Node (Import names l) \<notin> set (walk tree_from_import)"
    by (simp add: tree_from_import_def walk_tree_from_import)
  have analysed: "analyze_code example_runtime ''from m import n'' =
       Inr \<lparr>an_functions = [], an_variables = [], an_loops = [], an_conditionals = [],
            an_imports = [], an_docstrings = []\<rparr>"
    using parsed
    by (simp add: analyze_code_def walk_tree_from_import extract_docstrings_def
        docstring_of_body_def tree_from_import_def)
  show ?thesis
    by (intro conjI) (rule parsed, rule plain, rule analysed,
        rule from_import_yields_no_import [OF parsed plain, THEN conjunct1])
qed

section \<open>The questions of a function definition\<close>






end
